theory Spec2Isabelle
  imports Complex_Main
begin

section \<open>Two generators of a CoreML fixture for y = 2*x + 1\<close>

text \<open>
  The repository holds two scripts. \<^verbatim>\<open>create_simple_model.py\<close> fits a scikit-learn
  \<^verbatim>\<open>LinearRegression\<close> on five literal samples and hands the fitted estimator to the
  coremltools converter; \<^verbatim>\<open>create_simple_model_manual.py\<close> builds a one-layer network with
  literal parameters. Both then set three metadata fields, save to
  \<^verbatim>\<open>simple_model.mlmodel\<close> and print a message.

  Numbers are modelled as reals. Every numeric literal of the two scripts is a small
  integer, exactly representable in binary32 and binary64. The routine
  \<^verbatim>\<open>LinearRegression.fit\<close> is library code: it is a parameter \<open>fit\<close> of the model.

  A script ends normally or with an uncaught exception; the state it leaves behind is kept
  in both cases.
\<close>

subsection \<open>Data model\<close>

text \<open>
  Feature types, the objects of \<^verbatim>\<open>coremltools.models.datatypes\<close>:
  \<^verbatim>\<open>Double()\<close>, \<^verbatim>\<open>Int64()\<close>, \<^verbatim>\<open>String()\<close> and \<^verbatim>\<open>Array(n)\<close>.
\<close>

datatype feature_type = Double | Int64 | Str | Array nat

type_synonym feature = "string \<times> feature_type"

text \<open>
  What a caller of the converter may write for a feature's type: a Python string, or a
  datatype object. What it may write for the output names: one string, or a list.
\<close>

datatype type_spec = TypeName string | TypeObject feature_type

datatype names_arg = Name string | Names "string list"

text \<open>The fitted estimator: the attributes \<^verbatim>\<open>coef_\<close> and \<^verbatim>\<open>intercept_\<close>.\<close>

record linear_regression =
  coef :: "real list"
  intercept :: real

text \<open>The keyword arguments of \<^verbatim>\<open>add_inner_product\<close>, kept as one layer of the network.\<close>

datatype layer = InnerProduct
  (layer_name: string)
  (layer_W: "real list list")
  (layer_b: "real list")
  (input_channels: nat)
  (output_channels: nat)
  (has_bias: bool)
  (input_name: string)
  (output_name: string)

datatype model_type =
    GLMRegressor (glm_weights: "real list list") (glm_offset: "real list")
  | NeuralNetwork (nn_layers: "layer list")

text \<open>
  The model object: its feature declarations, its parameters, and the three metadata
  properties the scripts assign. The saved file is this value.
\<close>

record mlmodel =
  input_description :: "feature list"
  output_description :: "feature list"
  model_type :: model_type
  short_description :: string
  author :: string
  version :: string

record builder =
  builder_input_features :: "feature list"
  builder_output_features :: "feature list"
  builder_layers :: "layer list"

datatype error = TypeError | UnicodeEncodeError

datatype outcome = Done | Raised error

subsection \<open>The library calls the scripts make\<close>

text \<open>
  The converter first brings every declared type to a datatype object. A datatype object
  stands for itself; of the type names only \<^verbatim>\<open>"Double"\<close>, \<^verbatim>\<open>"Int64"\<close> and
  \<^verbatim>\<open>"String"\<close> are known, spelled so. Any other string raises \<^verbatim>\<open>TypeError\<close>.
\<close>

fun normalize_datatype :: "type_spec \<Rightarrow> error + feature_type" where
  "normalize_datatype (TypeObject t) = Inr t"
| "normalize_datatype (TypeName n) =
     (if n = ''Double'' then Inr Double
      else if n = ''Int64'' then Inr Int64
      else if n = ''String'' then Inr Str
      else Inl TypeError)"

fun process_features :: "(string \<times> type_spec) list \<Rightarrow> error + feature list" where
  "process_features [] = Inr []"
| "process_features ((n, t) # rest) =
     (case normalize_datatype t of
        Inl e \<Rightarrow> Inl e
      | Inr t' \<Rightarrow>
          (case process_features rest of
             Inl e \<Rightarrow> Inl e
           | Inr fs' \<Rightarrow> Inr ((n, t') # fs')))"

text \<open>
  \<^verbatim>\<open>ct.converters.sklearn.convert(model, input_features=..., output_feature_names=...)\<close>
  on a linear regression. For a regressor the output name has to be a single string; a
  list raises \<^verbatim>\<open>TypeError\<close>. With arguments it accepts, the result is a regressor with
  one weight row (the coefficients) and one offset (the intercept), a double output, and
  empty metadata.
\<close>

definition convert ::
  "linear_regression \<Rightarrow> (string \<times> type_spec) list \<Rightarrow> names_arg \<Rightarrow> error + mlmodel" where
  "convert model input_features output_feature_names =
     (case output_feature_names of
        Names ns \<Rightarrow> Inl TypeError
      | Name n \<Rightarrow>
          (case process_features input_features of
             Inl e \<Rightarrow> Inl e
           | Inr features \<Rightarrow>
               Inr \<lparr> input_description = features,
                     output_description = [(n, Double)],
                     model_type = GLMRegressor [coef model] [intercept model],
                     short_description = [],
                     author = [],
                     version = [] \<rparr>))"

definition NeuralNetworkBuilder :: "feature list \<Rightarrow> feature list \<Rightarrow> builder" where
  "NeuralNetworkBuilder input_features output_features =
     \<lparr> builder_input_features = input_features,
       builder_output_features = output_features,
       builder_layers = [] \<rparr>"

text \<open>\<^verbatim>\<open>builder.add_inner_product(...)\<close> appends one layer to the network under construction.\<close>

definition add_inner_product ::
  "string \<Rightarrow> real list list \<Rightarrow> real list \<Rightarrow> nat \<Rightarrow> nat \<Rightarrow> bool \<Rightarrow> string \<Rightarrow> string
     \<Rightarrow> builder \<Rightarrow> builder" where
  "add_inner_product name W b inc outc hb inp outp bld =
     bld \<lparr> builder_layers := builder_layers bld @ [InnerProduct name W b inc outc hb inp outp] \<rparr>"

text \<open>\<^verbatim>\<open>builder.spec\<close>: the description built so far, with empty metadata.\<close>

definition builder_spec :: "builder \<Rightarrow> mlmodel" where
  "builder_spec bld =
     \<lparr> input_description = builder_input_features bld,
       output_description = builder_output_features bld,
       model_type = NeuralNetwork (builder_layers bld),
       short_description = [],
       author = [],
       version = [] \<rparr>"

text \<open>\<^verbatim>\<open>MLModel(spec)\<close>: the model container around a description.\<close>

definition MLModel :: "mlmodel \<Rightarrow> mlmodel" where
  "MLModel spec = spec"

subsection \<open>Files, console and the rest of the environment\<close>

text \<open>
  What a run can touch or read: the names in the working directory, the lines written to
  standard output, which strings the console's encoding can take, the command-line
  arguments, the environment variables and the state of the random number generators.
\<close>

datatype node = File mlmodel | Directory

record world =
  fs :: "string \<rightharpoonup> node"
  stdout :: "string list"
  console_encodes :: "string \<Rightarrow> bool"
  argv :: "string list"
  environ :: "string \<rightharpoonup> string"
  rng_state :: nat

text \<open>
  Statements run in sequence; an exception ends the script where it is raised, and
  everything done before it stays done.
\<close>

definition and_then ::
  "outcome \<times> world \<Rightarrow> (world \<Rightarrow> outcome \<times> world) \<Rightarrow> outcome \<times> world" where
  "and_then r f = (case r of (Done, w) \<Rightarrow> f w | (Raised e, w) \<Rightarrow> (Raised e, w))"

text \<open>
  \<^verbatim>\<open>model.save(path)\<close> puts the serialized model under the name. The name's previous
  content is not looked at: absent, a file or a directory, it is replaced by the new file.
  Permissions and disk space are outside the model.
\<close>

definition save :: "mlmodel \<Rightarrow> string \<Rightarrow> world \<Rightarrow> outcome \<times> world" where
  "save m path w = (Done, w \<lparr> fs := (fs w)(path \<mapsto> File m) \<rparr>)"

text \<open>
  A Python string is kept as the UTF-8 bytes of its literal in the source file. A string
  of ASCII characters prints on every console. One with other characters prints where the
  console's encoding has them, and raises \<^verbatim>\<open>UnicodeEncodeError\<close> elsewhere, writing
  nothing. \<open>stdout\<close> keeps the strings printed.
\<close>

definition ascii :: "string \<Rightarrow> bool" where
  "ascii s = list_all (\<lambda>c. \<not> digit7 c) s"

definition print :: "string \<Rightarrow> world \<Rightarrow> outcome \<times> world" where
  "print s w =
     (if ascii s then (Done, w \<lparr> stdout := stdout w @ [s] \<rparr>)
      else if console_encodes w s then (Done, w \<lparr> stdout := stdout w @ [s] \<rparr>)
      else (Raised UnicodeEncodeError, w))"

subsection \<open>create\_simple\_model.py\<close>

text \<open>Lines 12 and 13: the training data, one row per sample.\<close>

definition training_X :: "real list list" where
  "training_X = [[1], [2], [3], [4], [5]]"

definition training_y :: "real list" where
  "training_y = [3, 5, 7, 9, 11]"

text \<open>
  Lines 20 to 24: the conversion of the fitted estimator \<open>model\<close>, with the arguments as
  the script writes them: the type of \<^verbatim>\<open>input\<close> is the string \<^verbatim>\<open>"double"\<close>, the output
  names are the list \<^verbatim>\<open>["output"]\<close>.
\<close>

definition converted_model :: "linear_regression \<Rightarrow> error + mlmodel" where
  "converted_model model =
     convert model [(''input'', TypeName ''double'')] (Names [''output''])"

text \<open>Lines 27 to 29: the metadata assignments, on the model object the converter returned.\<close>

definition coreml_model :: "mlmodel \<Rightarrow> mlmodel" where
  "coreml_model converted =
     converted
       \<lparr> short_description := ''Simple linear regression: y = 2*x + 1'',
         author := ''CoreML Experiment'',
         version := ''1.0'' \<rparr>"

text \<open>
  The script from line 16 on. \<open>fit\<close> stands for \<^verbatim>\<open>LinearRegression().fit\<close>, lines 16
  and 17, applied to the training data. An exception of the converter ends the script at
  line 20. Lines 32 to 36: save, then four prints; the first printed string starts with
  U+2705, three bytes in UTF-8.
\<close>

definition create_simple_model ::
  "(real list list \<Rightarrow> real list \<Rightarrow> linear_regression) \<Rightarrow> world \<Rightarrow> outcome \<times> world" where
  "create_simple_model fit w =
     (case converted_model (fit training_X training_y) of
        Inl e \<Rightarrow> (Raised e, w)
      | Inr converted \<Rightarrow>
          and_then (and_then (and_then (and_then
            (save (coreml_model converted) ''simple_model.mlmodel'' w)
            (print ([CHR 0xE2, CHR 0x9C, CHR 0x85] @ '' Created simple_model.mlmodel'')))
            (print ''   Formula: y = 2*x + 1''))
            (print ''   Input: 'input' (double)''))
            (print ''   Output: 'output' (double)''))"

subsection \<open>create\_simple\_model\_manual.py\<close>

text \<open>Lines 13 to 29: the builder with its one layer.\<close>

definition built :: builder where
  "built =
     add_inner_product ''linear'' [[2]] [1] 1 1 True ''input'' ''output''
       (NeuralNetworkBuilder [(''input'', Array 1)] [(''output'', Array 1)])"

text \<open>Lines 32 and 33.\<close>

definition model_spec :: mlmodel where
  "model_spec = builder_spec built"

definition wrapped_model :: mlmodel where
  "wrapped_model = MLModel model_spec"

text \<open>Lines 36 to 38.\<close>

definition manual_model :: mlmodel where
  "manual_model =
     wrapped_model
       \<lparr> short_description := ''Simple linear function: y = 2*x + 1'',
         author := ''CoreML Experiment'',
         version := ''1.0'' \<rparr>"

text \<open>
  Lines 41 to 46: save, then five prints. The first string literal of this file holds the
  seven bytes \<^verbatim>\<open>C3 A2 C5 93 E2 80 A6\<close> (three characters outside ASCII) before
  \<^verbatim>\<open> Created\<close>.
\<close>

definition create_simple_model_manual :: "world \<Rightarrow> outcome \<times> world" where
  "create_simple_model_manual w =
     and_then (and_then (and_then (and_then (and_then
       (save manual_model ''simple_model.mlmodel'' w)
       (print ([CHR 0xC3, CHR 0xA2, CHR 0xC5, CHR 0x93, CHR 0xE2, CHR 0x80, CHR 0xA6]
                 @ '' Created simple_model.mlmodel'')))
       (print ''   Formula: y = 2*x + 1''))
       (print ''   Input: 'input' (array of size 1)''))
       (print ''   Output: 'output' (array of size 1)''))
       (print ''   Test: input [3.0] should output [7.0]'')"

subsection \<open>What an artifact computes\<close>

text \<open>
  Modelled from the spec: the inference runtime that loads and evaluates
  \<^verbatim>\<open>simple_model.mlmodel\<close> is not part of the repository. The glossary gives the meaning
  of the two encodings: a linear regression computes \<open>y = w\<cdot>x + b\<close>, and a fully-connected
  (inner-product) layer computes \<open>output = W\<cdot>input + b\<close> for a weight matrix \<open>W\<close> and a
  bias vector \<open>b\<close>. \<open>predict\<close> takes the input features by name and returns the output
  features by name, or \<open>None\<close> when a feature is missing or a shape does not fit.
  Integer and string features take no part in either encoding and are not evaluated.
\<close>

datatype feature_value = DoubleValue real | ArrayValue "real list"

definition dot :: "real list \<Rightarrow> real list \<Rightarrow> real" where
  "dot xs ys = sum_list (map2 (\<lambda>a b. a * b) xs ys)"

fun feature_input :: "(string \<rightharpoonup> feature_value) \<Rightarrow> feature \<Rightarrow> real list option" where
  "feature_input d (n, Double) =
     (case d n of Some (DoubleValue v) \<Rightarrow> Some [v] | _ \<Rightarrow> None)"
| "feature_input d (n, Array k) =
     (case d n of
        Some (ArrayValue xs) \<Rightarrow> if length xs = k then Some xs else None
      | _ \<Rightarrow> None)"
| "feature_input d (n, t) = None"

text \<open>The regressor reads its input features in declared order as one vector.\<close>

fun gather :: "(string \<rightharpoonup> feature_value) \<Rightarrow> feature list \<Rightarrow> real list option" where
  "gather d [] = Some []"
| "gather d (f # rest) =
     (case feature_input d f of
        None \<Rightarrow> None
      | Some xs \<Rightarrow> (case gather d rest of None \<Rightarrow> None | Some ys \<Rightarrow> Some (xs @ ys)))"

definition glm_predict ::
  "real list list \<Rightarrow> real list \<Rightarrow> feature list \<Rightarrow> real list
     \<Rightarrow> (string \<times> feature_value) list option" where
  "glm_predict ws offs outs x =
     (if length ws = length outs \<and> length offs = length outs
         \<and> list_all (\<lambda>row. length row = length x) ws
      then Some (zip (map fst outs)
                     (map DoubleValue (map2 (\<lambda>row off. dot row x + off) ws offs)))
      else None)"

text \<open>The network keeps named blobs; a layer reads one blob and writes one.\<close>

fun load_blobs ::
  "(string \<rightharpoonup> feature_value) \<Rightarrow> feature list \<Rightarrow> (string \<rightharpoonup> real list) option" where
  "load_blobs d [] = Some Map.empty"
| "load_blobs d (f # rest) =
     (case feature_input d f of
        None \<Rightarrow> None
      | Some xs \<Rightarrow>
          (case load_blobs d rest of None \<Rightarrow> None | Some blobs \<Rightarrow> Some (blobs(fst f \<mapsto> xs))))"

fun inner_product :: "layer \<Rightarrow> real list \<Rightarrow> real list option" where
  "inner_product (InnerProduct name W b inc outc hb inp outp) x =
     (if length x = inc \<and> length W = outc \<and> list_all (\<lambda>row. length row = inc) W
         \<and> (if hb then length b = outc else True)
      then Some (if hb then map2 (\<lambda>s t. s + t) (map (\<lambda>row. dot row x) W) b
                 else map (\<lambda>row. dot row x) W)
      else None)"

fun run_layers :: "layer list \<Rightarrow> (string \<rightharpoonup> real list) \<Rightarrow> (string \<rightharpoonup> real list) option" where
  "run_layers [] blobs = Some blobs"
| "run_layers (l # ls) blobs =
     (case blobs (input_name l) of
        None \<Rightarrow> None
      | Some x \<Rightarrow>
          (case inner_product l x of
             None \<Rightarrow> None
           | Some y \<Rightarrow> run_layers ls (blobs(output_name l \<mapsto> y))))"

fun read_outputs ::
  "(string \<rightharpoonup> real list) \<Rightarrow> feature list \<Rightarrow> (string \<times> feature_value) list option" where
  "read_outputs blobs [] = Some []"
| "read_outputs blobs ((n, t) # outs) =
     (case blobs n of
        None \<Rightarrow> None
      | Some y \<Rightarrow>
          (case read_outputs blobs outs of
             None \<Rightarrow> None
           | Some rest \<Rightarrow>
               (case t of
                  Array k \<Rightarrow> if length y = k then Some ((n, ArrayValue y) # rest) else None
                | Double \<Rightarrow>
                    (case y of [v] \<Rightarrow> Some ((n, DoubleValue v) # rest) | _ \<Rightarrow> None)
                | _ \<Rightarrow> None)))"

definition predict ::
  "mlmodel \<Rightarrow> (string \<rightharpoonup> feature_value) \<Rightarrow> (string \<times> feature_value) list option" where
  "predict m d =
     (case model_type m of
        GLMRegressor ws offs \<Rightarrow>
          (case gather d (input_description m) of
             None \<Rightarrow> None
           | Some x \<Rightarrow> glm_predict ws offs (output_description m) x)
      | NeuralNetwork ls \<Rightarrow>
          (case load_blobs d (input_description m) of
             None \<Rightarrow> None
           | Some blobs \<Rightarrow>
               (case run_layers ls blobs of
                  None \<Rightarrow> None
                | Some blobs' \<Rightarrow> read_outputs blobs' (output_description m))))"

subsection \<open>The least-squares objective\<close>

text \<open>
  Modelled from the spec: \<^verbatim>\<open>LinearRegression.fit\<close> is library code, not part of the
  repository. The glossary says what it computes: linear regression fits \<open>y = w\<cdot>x + b\<close> by
  minimising the squared error over the samples. \<open>squared_error\<close> is that objective, and a
  fitted estimator \<open>minimises_squared_error\<close> on given data when it has one coefficient
  for each column and no choice of weights and intercept has a smaller squared error.
\<close>

definition squared_error :: "real list list \<Rightarrow> real list \<Rightarrow> real list \<Rightarrow> real \<Rightarrow> real" where
  "squared_error X y w c = sum_list (map2 (\<lambda>row t. (t - (dot w row + c))\<^sup>2) X y)"

definition minimises_squared_error ::
  "real list list \<Rightarrow> real list \<Rightarrow> linear_regression \<Rightarrow> bool" where
  "minimises_squared_error X y m \<longleftrightarrow>
     list_all (\<lambda>row. length row = length (coef m)) X
     \<and> (\<forall>w c. squared_error X y (coef m) (intercept m) \<le> squared_error X y w c)"

subsection \<open>A fresh working directory and a UTF-8 console\<close>

definition empty_world :: world where
  "empty_world =
     \<lparr> fs = Map.empty, stdout = [], console_encodes = (\<lambda>s. True),
       argv = [], environ = Map.empty, rng_state = 0 \<rparr>"

section \<open>Properties\<close>

subsection \<open>Unfolding the manual script\<close>

lemmas model_defs = built_def manual_model_def wrapped_model_def model_spec_def MLModel_def
  builder_spec_def add_inner_product_def NeuralNetworkBuilder_def

subsection \<open>The training data and the fit\<close>

text \<open>
  C5: the training set of the trainer script is five (input, target) pairs, written as
  literals: the inputs are 1 to 5, the targets 3, 5, 7, 9, 11, and every target is twice
  its input plus one. The data are constants: nothing in the script assigns to them again.
\<close>

theorem training_set_linear:
  "training_X = [[1], [2], [3], [4], [5]]
   \<and> training_y = [3, 5, 7, 9, 11]
   \<and> length (zip training_X training_y) = 5
   \<and> list_all2 (\<lambda>row t. \<exists>x. row = [x] \<and> t = 2 * x + 1) training_X training_y"
  by (simp add: training_X_def training_y_def)

text \<open>
  On these data the squared error is a sum of two squares that vanishes only at weight 2
  and intercept 1. So the line \<open>y = 2 x + 1\<close> minimises it, and every minimiser is that line.
\<close>

lemma squared_error_nonneg: "0 \<le> squared_error X y w c"
  unfolding squared_error_def by (rule sum_list_nonneg) auto

lemma squared_error_training:
  "squared_error training_X training_y [w] c = 5 * ((c - 1) + 3 * (w - 2))\<^sup>2 + 10 * (w - 2)\<^sup>2"
  by (simp add: squared_error_def training_X_def training_y_def dot_def power2_eq_square
      algebra_simps)

lemma squared_error_training_zero_iff:
  "squared_error training_X training_y [w] c = 0 \<longleftrightarrow> w = 2 \<and> c = 1"
proof -
  have "5 * ((c - 1) + 3 * (w - 2))\<^sup>2 + 10 * (w - 2)\<^sup>2 = 0 \<longleftrightarrow> w = 2 \<and> c = 1"
  proof
    assume h: "5 * ((c - 1) + 3 * (w - 2))\<^sup>2 + 10 * (w - 2)\<^sup>2 = 0"
    have a: "0 \<le> 5 * ((c - 1) + 3 * (w - 2))\<^sup>2" and b: "0 \<le> 10 * (w - 2)\<^sup>2"
      by simp_all
    from h a b have "10 * (w - 2)\<^sup>2 = 0" and "5 * ((c - 1) + 3 * (w - 2))\<^sup>2 = 0"
      by linarith+
    then show "w = 2 \<and> c = 1" by simp
  next
    assume "w = 2 \<and> c = 1"
    then show "5 * ((c - 1) + 3 * (w - 2))\<^sup>2 + 10 * (w - 2)\<^sup>2 = 0" by simp
  qed
  then show ?thesis by (simp only: squared_error_training)
qed


lemma least_squares_training:
  assumes "minimises_squared_error training_X training_y m"
  shows "coef m = [2] \<and> intercept m = 1"
proof -
  from assms have len: "length (coef m) = 1"
    by (simp add: minimises_squared_error_def training_X_def)
  then obtain w where w: "coef m = [w]"
    by (cases "coef m") auto
  from assms have "squared_error training_X training_y (coef m) (intercept m)
      \<le> squared_error training_X training_y [2] 1"
    by (simp add: minimises_squared_error_def)
  also have "squared_error training_X training_y [2] 1 = 0"
    by (simp add: squared_error_training_zero_iff)
  finally have "squared_error training_X training_y [w] (intercept m) \<le> 0"
    by (simp add: w)
  with squared_error_nonneg [of training_X training_y "[w]" "intercept m"]
  have "squared_error training_X training_y [w] (intercept m) = 0"
    by linarith
  then have "w = 2 \<and> intercept m = 1"
    by (simp only: squared_error_training_zero_iff)
  with w show ?thesis by simp
qed



subsection \<open>The hand-built network\<close>

text \<open>
  C4: the manual script declares one input array of length 1 named \<open>input\<close> and one output
  array of length 1 named \<open>output\<close>, and adds exactly one inner-product layer, with weight
  matrix \<open>[[2]]\<close>, bias vector \<open>[1]\<close>, one input channel, one output channel and the bias
  enabled. The values are the literals of the script; the saved model carries them unchanged.
\<close>

theorem manual_builder_contents:
  "builder_input_features built = [(''input'', Array 1)]
   \<and> builder_output_features built = [(''output'', Array 1)]
   \<and> builder_layers built = [InnerProduct ''linear'' [[2]] [1] 1 1 True ''input'' ''output'']
   \<and> input_description manual_model = [(''input'', Array 1)]
   \<and> output_description manual_model = [(''output'', Array 1)]
   \<and> model_type manual_model
        = NeuralNetwork [InnerProduct ''linear'' [[2]] [1] 1 1 True ''input'' ''output'']"
  by (simp add: model_defs)

subsection \<open>Running the scripts\<close>

text \<open>
  The converter rejects the arguments the trainer script gives it: \<^verbatim>\<open>"double"\<close> is not a
  type name it knows, and the output names are a list. Every run of the trainer script
  therefore ends at line 20 with \<^verbatim>\<open>TypeError\<close> and has done nothing. The manual script
  always writes its file; it completes when the console can take the first printed string.
\<close>

lemma conversion_raises: "converted_model model = Inl TypeError"
  by (simp add: converted_model_def convert_def)

lemma create_simple_model_result: "create_simple_model fit w = (Raised TypeError, w)"
  by (simp add: create_simple_model_def conversion_raises)

lemma create_simple_model_manual_result:
  "create_simple_model_manual w =
     (if console_encodes w
           ([CHR 0xC3, CHR 0xA2, CHR 0xC5, CHR 0x93, CHR 0xE2, CHR 0x80, CHR 0xA6]
              @ '' Created simple_model.mlmodel'')
      then (Done,
            w \<lparr> fs := (fs w)(''simple_model.mlmodel'' \<mapsto> File manual_model),
                stdout := stdout w @
                  [[CHR 0xC3, CHR 0xA2, CHR 0xC5, CHR 0x93, CHR 0xE2, CHR 0x80, CHR 0xA6]
                     @ '' Created simple_model.mlmodel'',
                   ''   Formula: y = 2*x + 1'',
                   ''   Input: 'input' (array of size 1)'',
                   ''   Output: 'output' (array of size 1)'',
                   ''   Test: input [3.0] should output [7.0]''] \<rparr>)
      else (Raised UnicodeEncodeError,
            w \<lparr> fs := (fs w)(''simple_model.mlmodel'' \<mapsto> File manual_model) \<rparr>))"
  by (simp add: create_simple_model_manual_def save_def print_def and_then_def ascii_def)

subsection \<open>What the artifacts compute\<close>

lemma manual_predict:
  "predict manual_model [''input'' \<mapsto> ArrayValue [x]] = Some [(''output'', ArrayValue [2 * x + 1])]"
  by (simp add: predict_def model_defs dot_def)

lemma accepted_conversion:
  "convert model [(''input'', TypeObject Double)] (Name ''output'') =
     Inr \<lparr> input_description = [(''input'', Double)],
           output_description = [(''output'', Double)],
           model_type = GLMRegressor [coef model] [intercept model],
           short_description = [], author = [], version = [] \<rparr>"
  by (simp add: convert_def)

lemma accepted_conversion_predict:
  assumes "minimises_squared_error training_X training_y model"
  shows "\<exists>converted. convert model [(''input'', TypeObject Double)] (Name ''output'') = Inr converted
           \<and> predict (coreml_model converted) [''input'' \<mapsto> DoubleValue x]
               = Some [(''output'', DoubleValue (2 * x + 1))]"
proof -
  from assms have "coef model = [2] \<and> intercept model = 1"
    by (rule least_squares_training)
  then show ?thesis
    by (simp add: accepted_conversion predict_def coreml_model_def glm_predict_def dot_def)
qed

text \<open>
  C1 says that the two artifacts describe the same function, \<open>y = 2 x + 1\<close>, each with one
  input named \<open>input\<close> and one output named \<open>output\<close>. The manual artifact does. The trainer
  script produces no artifact: the conversion of the fitted estimator raises, whatever the
  fit returned, and the run leaves the directory as it was. (With arguments the converter
  accepts and a least-squares fit, \<open>accepted_conversion_predict\<close> above, the converted model
  would describe the same function.)
\<close>

theorem trainer_artifact_never_built:
  "converted_model (fit training_X training_y) = Inl TypeError
   \<and> fs (snd (create_simple_model fit w)) = fs w
   \<and> map fst (input_description manual_model) = [''input'']
   \<and> map fst (output_description manual_model) = [''output'']
   \<and> predict manual_model [''input'' \<mapsto> ArrayValue [x]]
        = Some [(''output'', ArrayValue [2 * x + 1])]"
  by (simp add: conversion_raises create_simple_model_result manual_predict)
     (simp add: model_defs)

text \<open>
  C2 says that both artifacts map 3 to 7 and 0 to 1. The manual artifact does, exactly.
  There is no trainer artifact to evaluate: every run of the trainer script raises
  \<^verbatim>\<open>TypeError\<close> and leaves whatever \<^verbatim>\<open>simple_model.mlmodel\<close> held before.
\<close>

theorem predictions_at_3_and_0:
  "predict manual_model [''input'' \<mapsto> ArrayValue [3]] = Some [(''output'', ArrayValue [7])]
   \<and> predict manual_model [''input'' \<mapsto> ArrayValue [0]] = Some [(''output'', ArrayValue [1])]
   \<and> fst (create_simple_model fit w) = Raised TypeError
   \<and> fs (snd (create_simple_model fit w)) ''simple_model.mlmodel'' = fs w ''simple_model.mlmodel''"
proof -
  have m3: "predict manual_model [''input'' \<mapsto> ArrayValue [3]]
              = Some [(''output'', ArrayValue [7])]"
    using manual_predict [of 3] by simp
  have m0: "predict manual_model [''input'' \<mapsto> ArrayValue [0]]
              = Some [(''output'', ArrayValue [1])]"
    using manual_predict [of 0] by simp
  from m3 m0 show ?thesis by (simp add: create_simple_model_result)
qed

subsection \<open>Metadata\<close>




subsection \<open>The file and the console\<close>

lemma manual_run_file:
  "fs (snd (create_simple_model_manual w)) = (fs w)(''simple_model.mlmodel'' \<mapsto> File manual_model)"
  by (simp add: create_simple_model_manual_result)

text \<open>
  C7 says that both scripts write \<^verbatim>\<open>simple_model.mlmodel\<close> and that running one after
  the other, or one twice, overwrites the file. The manual script does: after it has run
  the name holds its model, whatever was there, and a second run changes nothing. The
  trainer script never writes: a run leaves the whole state untouched, so after the manual
  script it leaves the manual model in the file.
\<close>

theorem trainer_leaves_file_untouched:
  "snd (create_simple_model fit w) = w
   \<and> fs (snd (create_simple_model_manual w))
       = (fs w)(''simple_model.mlmodel'' \<mapsto> File manual_model)
   \<and> fs (snd (create_simple_model_manual (snd (create_simple_model_manual w))))
       = fs (snd (create_simple_model_manual w))
   \<and> fs (snd (create_simple_model fit (snd (create_simple_model_manual w))))
        ''simple_model.mlmodel'' = Some (File manual_model)"
  by (simp add: create_simple_model_result manual_run_file)


lemma manual_run_on_utf8_console:
  "fst (create_simple_model_manual empty_world) = Done"
  by (simp add: create_simple_model_manual_result empty_world_def)

text \<open>
  C8 says that each script ends by printing its success message. The trainer script
  prints nothing: every run ends with \<^verbatim>\<open>TypeError\<close> and standard output as it was.
\<close>

theorem trainer_prints_nothing:
  "fst (create_simple_model fit w) = Raised TypeError
   \<and> stdout (snd (create_simple_model fit w)) = stdout w
   \<and> stdout (snd (create_simple_model fit empty_world)) = []"
  by (simp add: create_simple_model_result empty_world_def)



end
